theory Spec2Isabelle
  imports Complex_Main "HOL-Library.Log_Nat"
begin

section \<open>Agent health monitor: values, records and Python's operators\<close>

text \<open>
  The program is the Python script \<^verbatim>\<open>generate.py\<close>. It asks an external session registry
  for a JSON document, classifies every session record by its token count and the time of
  its last update, groups the records into three buckets and prints a page.

  A session record is a Python \<^verbatim>\<open>dict\<close> decoded from JSON. The fields the script reads hold
  JSON scalars, so a field value is one of Python's \<^verbatim>\<open>None\<close>, a \<^verbatim>\<open>bool\<close>, an unbounded
  \<^verbatim>\<open>int\<close> or a \<^verbatim>\<open>str\<close>; a record is a finite map from keys to such values. Strings are the
  UTF-8 bytes the script writes to its output file.
\<close>

datatype pyval = PNone | PBool bool | PInt int | PStr string

type_synonym session = "string \<rightharpoonup> pyval"

datatype py_error = TypeError

text \<open>\<^verbatim>\<open>session.get(key, default)\<close>: the value stored under the key, the default when the
  key is absent. A key that is present with the value \<^verbatim>\<open>None\<close> yields \<^verbatim>\<open>None\<close>.\<close>

definition dict_get :: "session \<Rightarrow> string \<Rightarrow> pyval \<Rightarrow> pyval" where
  "dict_get d k dflt = (case d k of None \<Rightarrow> dflt | Some v \<Rightarrow> v)"

text \<open>Python's \<^verbatim>\<open>v == n\<close> for an integer literal \<^verbatim>\<open>n\<close>: a \<^verbatim>\<open>bool\<close> compares as 0 or 1, a
  string or \<^verbatim>\<open>None\<close> is never equal to a number, and nothing is raised.\<close>

fun py_eq_int :: "pyval \<Rightarrow> int \<Rightarrow> bool" where
  "py_eq_int (PInt i) n = (i = n)"
| "py_eq_int (PBool b) n = ((if b then 1 else 0) = n)"
| "py_eq_int PNone n = False"
| "py_eq_int (PStr s) n = False"

text \<open>\<^verbatim>\<open>v > n\<close> and \<^verbatim>\<open>v >= n\<close> order numbers only: on a string or \<^verbatim>\<open>None\<close> they raise
  \<^verbatim>\<open>TypeError\<close>.\<close>

fun py_gt_int :: "pyval \<Rightarrow> int \<Rightarrow> py_error + bool" where
  "py_gt_int (PInt i) n = Inr (i > n)"
| "py_gt_int (PBool b) n = Inr ((if b then 1 else 0) > n)"
| "py_gt_int PNone n = Inl TypeError"
| "py_gt_int (PStr s) n = Inl TypeError"

fun py_ge_int :: "pyval \<Rightarrow> int \<Rightarrow> py_error + bool" where
  "py_ge_int (PInt i) n = Inr (i \<ge> n)"
| "py_ge_int (PBool b) n = Inr ((if b then 1 else 0) \<ge> n)"
| "py_ge_int PNone n = Inl TypeError"
| "py_ge_int (PStr s) n = Inl TypeError"

text \<open>\<^verbatim>\<open>n - v\<close> for an integer \<^verbatim>\<open>n\<close>.\<close>

fun py_int_sub :: "int \<Rightarrow> pyval \<Rightarrow> py_error + int" where
  "py_int_sub n (PInt i) = Inr (n - i)"
| "py_int_sub n (PBool b) = Inr (n - (if b then 1 else 0))"
| "py_int_sub n PNone = Inl TypeError"
| "py_int_sub n (PStr s) = Inl TypeError"

text \<open>\<^verbatim>\<open>not v\<close>: the truth value of a Python object, negated.\<close>

fun py_not :: "pyval \<Rightarrow> bool" where
  "py_not PNone = True"
| "py_not (PBool b) = (\<not> b)"
| "py_not (PInt i) = (i = 0)"
| "py_not (PStr s) = (s = [])"

text \<open>\<^verbatim>\<open>v // n\<close> for a positive integer literal \<^verbatim>\<open>n\<close>: floor division, as \<open>div\<close> on
  \<open>int\<close>.\<close>

fun py_floordiv :: "pyval \<Rightarrow> int \<Rightarrow> py_error + int" where
  "py_floordiv (PInt i) n = Inr (i div n)"
| "py_floordiv (PBool b) n = Inr ((if b then 1 else 0) div n)"
| "py_floordiv PNone n = Inl TypeError"
| "py_floordiv (PStr s) n = Inl TypeError"

subsection \<open>Decimal strings\<close>

definition digit_char :: "nat \<Rightarrow> char" where
  "digit_char d = ''0123456789'' ! d"

fun str_nat :: "nat \<Rightarrow> string" where
  "str_nat n = (if n < 10 then [digit_char n] else str_nat (n div 10) @ [digit_char (n mod 10)])"

declare str_nat.simps [simp del]

text \<open>\<^verbatim>\<open>str(i)\<close> of an integer.\<close>

definition str_int :: "int \<Rightarrow> string" where
  "str_int i = (if i < 0 then CHR ''-'' # str_nat (nat (- i)) else str_nat (nat i))"

text \<open>\<^verbatim>\<open>str(v)\<close>, which is also what an f-string field \<^verbatim>\<open>{v}\<close> prints.\<close>

fun py_str :: "pyval \<Rightarrow> string" where
  "py_str PNone = ''None''"
| "py_str (PBool b) = (if b then ''True'' else ''False'')"
| "py_str (PInt i) = str_int i"
| "py_str (PStr s) = s"



subsection \<open>Binary64 quotients and their one-decimal format\<close>

text \<open>
  \<^verbatim>\<open>tokens / 1000\<close> is Python's true division of two integers: the binary64 number
  nearest to the quotient, ties to the even mantissa. \<^verbatim>\<open>f"{x:.1f}"\<close> then prints the
  decimal with one fractional digit nearest to that binary64 number, ties to the even
  digit. The tie rule decides ordinary inputs (1050 prints as 1.1k, 1250 as 1.2k), so both
  roundings are modelled exactly. A binary64 number is a pair \<open>(m, e)\<close> of a mantissa of at
  most 53 bits and an exponent, with the value \<open>m * 2 ^ e\<close>; the exponent range of
  binary64 (quotients from \<open>2 ^ 1024\<close> on raise \<^verbatim>\<open>OverflowError\<close>) is left out.
\<close>

type_synonym float64 = "int \<times> int"


text \<open>The integer nearest to \<open>a / b\<close> for \<open>b > 0\<close>, ties to even.\<close>

definition round_half_even :: "int \<Rightarrow> int \<Rightarrow> int" where
  "round_half_even a b =
     (let q = a div b; r = a mod b
      in if 2 * r < b then q else if 2 * r > b then q + 1 else if even q then q else q + 1)"

text \<open>The integer part of the binary logarithm of \<open>n / b\<close> for positive \<open>n\<close> and \<open>b\<close>:
  the bit lengths give it up to one, a comparison decides.\<close>

definition log2_floor :: "int \<Rightarrow> int \<Rightarrow> int" where
  "log2_floor n b =
     (let k = bitlen n - bitlen b
      in if (if k \<ge> 0 then b * 2 ^ nat k \<le> n else b \<le> n * 2 ^ nat (- k)) then k else k - 1)"

text \<open>The binary64 number nearest to \<open>a / b\<close> for \<open>b > 0\<close>: the mantissa is
  \<open>\<bar>a\<bar> / b / 2 ^ e\<close> rounded to an integer, where the exponent \<open>e\<close> puts it between
  \<open>2 ^ 52\<close> and \<open>2 ^ 53\<close>.\<close>

definition true_divide :: "int \<Rightarrow> int \<Rightarrow> float64" where
  "true_divide a b =
     (if a = 0 then (0, 0)
      else
        let n = \<bar>a\<bar>;
            e = log2_floor n b - 52;
            m = (if e \<ge> 0 then round_half_even n (b * 2 ^ nat e)
                 else round_half_even (n * 2 ^ nat (- e)) b)
        in (sgn a * m, e))"

fun py_truediv :: "pyval \<Rightarrow> int \<Rightarrow> py_error + float64" where
  "py_truediv (PInt i) n = Inr (true_divide i n)"
| "py_truediv (PBool b) n = Inr (true_divide (if b then 1 else 0) n)"
| "py_truediv PNone n = Inl TypeError"
| "py_truediv (PStr s) n = Inl TypeError"

text \<open>\<open>tenths x\<close> is ten times the absolute value of \<open>x\<close>, rounded to an integer;
  \<open>format_1f\<close> is \<^verbatim>\<open>f"{x:.1f}"\<close>.\<close>

definition tenths :: "float64 \<Rightarrow> int" where
  "tenths x = (case x of (m, e) \<Rightarrow>
     if e \<ge> 0 then 10 * \<bar>m\<bar> * 2 ^ nat e else round_half_even (10 * \<bar>m\<bar>) (2 ^ nat (- e)))"

definition format_1f :: "float64 \<Rightarrow> string" where
  "format_1f x =
     (if fst x < 0 then ''-'' else []) @
     str_nat (nat (tenths x div 10)) @ ''.'' @ [digit_char (nat (tenths x mod 10))]"

text \<open>\<^verbatim>\<open>int(x)\<close> of a number with a fraction: truncation toward zero.\<close>

definition py_int :: "real \<Rightarrow> int" where
  "py_int x = (if x \<ge> 0 then \<lfloor>x\<rfloor> else \<lceil>x\<rceil>)"



section \<open>The formatters\<close>

definition format_duration :: "pyval \<Rightarrow> py_error + string" where
  "format_duration ms =
     (if py_not ms then Inr ''N/A''
      else case py_floordiv ms 60000 of
             Inl e \<Rightarrow> Inl e
           | Inr minutes \<Rightarrow>
               (let hours = minutes div 60
                in if hours > 0 then
                     Inr (str_int hours @ ''h '' @ str_int (minutes mod 60) @ ''m'')
                   else Inr (str_int minutes @ ''m'')))"

definition format_tokens :: "pyval \<Rightarrow> py_error + string" where
  "format_tokens tokens =
     (if py_not tokens then Inr ''0''
      else case py_ge_int tokens 1000 of
             Inl e \<Rightarrow> Inl e
           | Inr large \<Rightarrow>
               if large then
                 (case py_truediv tokens 1000 of
                    Inl e \<Rightarrow> Inl e
                  | Inr x \<Rightarrow> Inr (format_1f x @ ''k''))
               else Inr (py_str tokens))"

section \<open>The data model of the specification\<close>

text \<open>The specification types \<^verbatim>\<open>totalTokens\<close> and \<^verbatim>\<open>updatedAt\<close> as integers that may be
  absent. \<open>absent_or_int\<close> says so of one field; \<open>int_field\<close> reads the field with the
  default 0.\<close>

definition absent_or_int :: "session \<Rightarrow> string \<Rightarrow> bool" where
  "absent_or_int d k = (case d k of None \<Rightarrow> True | Some (PInt i) \<Rightarrow> True | Some _ \<Rightarrow> False)"

definition int_field :: "session \<Rightarrow> string \<Rightarrow> int" where
  "int_field d k = (case d k of Some (PInt i) \<Rightarrow> i | _ \<Rightarrow> 0)"

definition session_record :: "session \<Rightarrow> bool" where
  "session_record d = (absent_or_int d ''totalTokens'' \<and> absent_or_int d ''updatedAt'')"

section \<open>The classifier\<close>

text \<open>The icons are the UTF-8 encodings of U+26A0 U+FE0F, U+1F7E2, U+2705 and U+26AA.\<close>

definition icon_stuck :: string where
  "icon_stuck = [CHR 0xE2, CHR 0x9A, CHR 0xA0, CHR 0xEF, CHR 0xB8, CHR 0x8F]"

definition icon_active :: string where
  "icon_active = [CHR 0xF0, CHR 0x9F, CHR 0x9F, CHR 0xA2]"

definition icon_completed :: string where
  "icon_completed = [CHR 0xE2, CHR 0x9C, CHR 0x85]"

definition icon_idle :: string where
  "icon_idle = [CHR 0xE2, CHR 0x9A, CHR 0xAA]"

text \<open>
  \<^verbatim>\<open>get_status\<close> reads the clock itself (\<^verbatim>\<open>int(datetime.now().timestamp() * 1000)\<close>); the
  reading is the argument \<open>now\<close>, in milliseconds since the epoch. The idle time is
  \<^verbatim>\<open>(now - updated) / 1000 / 60\<close>, Python's true division. The model takes the quotient in
  the reals, as the specification does. The section on binary64 arithmetic shows what that
  leaves out: the binary64 quotient \<open>float_idle\<close> compares with 5 and with 2 as the real
  quotient does, for every integer, and \<^verbatim>\<open>int\<close> cuts both to the same integer while the
  elapsed time is below \<open>2 ^ 50\<close> milliseconds (some 35000 years); from \<open>2 ^ 54\<close> on binary64
  can round the quotient up to the next integer.
\<close>

definition get_status :: "int \<Rightarrow> session \<Rightarrow> py_error + (string \<times> string \<times> string)" where
  "get_status now session =
     (let tokens = dict_get session ''totalTokens'' (PInt 0);
          updated = dict_get session ''updatedAt'' (PInt 0)
      in case py_int_sub now updated of
           Inl e \<Rightarrow> Inl e
         | Inr elapsed \<Rightarrow>
             (let idle_time = real_of_int elapsed / 1000 / 60
              in if py_eq_int tokens 0 \<and> idle_time > 5 then
                   Inr (''stuck'', icon_stuck, ''#f85149'')
                 else if idle_time < 2 then
                   Inr (''active'', icon_active, ''#3fb950'')
                 else
                   (case py_gt_int tokens 0 of
                      Inl e \<Rightarrow> Inl e
                    | Inr positive \<Rightarrow>
                        if positive then Inr (''completed'', icon_completed, ''#58a6ff'')
                        else Inr (''idle'', icon_idle, ''#8b949e''))))"


definition idleMinutes :: "int \<Rightarrow> session \<Rightarrow> real" where
  "idleMinutes now d = real_of_int (now - int_field d ''updatedAt'') / 60000"

section \<open>The dashboard\<close>

text \<open>
  \<^verbatim>\<open>render_agent_card\<close> reads the clock again; \<open>now\<close> is that reading. Its f-string is
  the template \<open>card_html\<close>, a function of the texts of its fields. Of these only the idle
  time, computed before the string, and \<^verbatim>\<open>format_tokens(tokens)\<close> can raise. The bullet is
  the UTF-8 encoding of U+2022.
\<close>

definition bullet :: string where
  "bullet = [CHR 0xE2, CHR 0x80, CHR 0xA2]"

definition card_html ::
    "string \<Rightarrow> string \<Rightarrow> string \<Rightarrow> string \<Rightarrow> string \<Rightarrow> string \<Rightarrow> string \<Rightarrow> string" where
  \<open>card_html icon label kind model idle_minutes tokens_text status =
     ''\<newline>                <div class="agent-card">\<newline>''
   @ ''                    <div class="agent-icon">'' @ icon @ ''</div>\<newline>''
   @ ''                    <div class="agent-info">\<newline>''
   @ ''                        <h3>'' @ label @ ''</h3>\<newline>''
   @ ''                        <p>'' @ kind @ '' '' @ bullet @ '' '' @ model @ '' '' @ bullet
   @ '' Idle: '' @ idle_minutes @ ''m</p>\<newline>''
   @ ''                    </div>\<newline>''
   @ ''                    <div class="agent-stats">\<newline>''
   @ ''                        <div class="agent-stat">\<newline>''
   @ ''                            <span class="value">'' @ tokens_text @ ''</span>\<newline>''
   @ ''                            <span class="label">tokens</span>\<newline>''
   @ ''                        </div>\<newline>''
   @ ''                    </div>\<newline>''
   @ ''                    <span class="status-badge '' @ status @ ''">'' @ status @ ''</span>\<newline>''
   @ ''                </div>\<newline>''\<close>

definition render_agent_card :: "int \<Rightarrow> session \<Rightarrow> py_error + string" where
  "render_agent_card now session =
     (let label = dict_get session ''label'' (PStr ''unnamed'');
          kind = dict_get session ''kind'' (PStr ''unknown'');
          tokens = dict_get session ''totalTokens'' (PInt 0);
          model = dict_get session ''model'' (PStr ''unknown'');
          updated = dict_get session ''updatedAt'' (PInt 0);
          status = dict_get session ''_status'' (PStr ''unknown'');
          icon = dict_get session ''_icon'' (PStr icon_idle)
      in case py_int_sub now updated of
           Inl e \<Rightarrow> Inl e
         | Inr elapsed \<Rightarrow>
             (let idle_minutes = py_int (real_of_int elapsed / 1000 / 60)
              in case format_tokens tokens of
                   Inl e \<Rightarrow> Inl e
                 | Inr tokens_text \<Rightarrow>
                     Inr (card_html (py_str icon) (py_str label) (py_str kind) (py_str model)
                            (str_int idle_minutes) tokens_text (py_str status))))"

text \<open>
  The clock is the sequence of its readings, in milliseconds since the epoch: \<open>clk t\<close> is
  what the \<open>t\<close>-th call of \<^verbatim>\<open>datetime.now()\<close> returns. Every function that reads the clock
  takes the number of readings made so far.
\<close>

type_synonym clock = "nat \<Rightarrow> int"

text \<open>The state of the categorising loop: the list \<^verbatim>\<open>sessions\<close>, whose records the loop
  updates in place, and the three bucket lists, which hold the same updated records.\<close>

record buckets =
  all_sessions :: "session list"
  active_bucket :: "session list"
  completed_bucket :: "session list"
  stuck_bucket :: "session list"

definition no_buckets :: buckets where
  "no_buckets = \<lparr>all_sessions = [], active_bucket = [], completed_bucket = [], stuck_bucket = []\<rparr>"

text \<open>One iteration: \<^verbatim>\<open>s["_status"] = status\<close> and its two neighbours, then the append to
  the bucket of that status, if any.\<close>

definition annotate :: "session \<Rightarrow> string \<times> string \<times> string \<Rightarrow> session" where
  "annotate s r = (case r of (status, icon, color) \<Rightarrow>
     s(''_status'' \<mapsto> PStr status, ''_icon'' \<mapsto> PStr icon, ''_color'' \<mapsto> PStr color))"

definition place :: "string \<Rightarrow> session \<Rightarrow> buckets \<Rightarrow> buckets" where
  "place status s b =
     (if status = ''active'' then b\<lparr>active_bucket := active_bucket b @ [s]\<rparr>
      else if status = ''completed'' then b\<lparr>completed_bucket := completed_bucket b @ [s]\<rparr>
      else if status = ''stuck'' then b\<lparr>stuck_bucket := stuck_bucket b @ [s]\<rparr>
      else b)"

fun categorize :: "clock \<Rightarrow> nat \<Rightarrow> session list \<Rightarrow> buckets \<Rightarrow> py_error + buckets" where
  "categorize clk t [] b = Inr b"
| "categorize clk t (s # rest) b =
     (case get_status (clk t) s of
        Inl e \<Rightarrow> Inl e
      | Inr r \<Rightarrow>
          categorize clk (Suc t) rest
            (place (fst r) (annotate s r) (b\<lparr>all_sessions := all_sessions b @ [annotate s r]\<rparr>)))"

text \<open>\<^verbatim>\<open>for s in bucket: html += render_agent_card(s)\<close>, one clock reading a card.\<close>

fun render_cards :: "clock \<Rightarrow> nat \<Rightarrow> session list \<Rightarrow> py_error + string" where
  "render_cards clk t [] = Inr []"
| "render_cards clk t (s # rest) =
     (case render_agent_card (clk t) s of
        Inl e \<Rightarrow> Inl e
      | Inr card_text \<Rightarrow>
          (case render_cards clk (Suc t) rest of
             Inl e \<Rightarrow> Inl e
           | Inr cards \<Rightarrow> Inr (card_text @ cards)))"

text \<open>The literal texts of the page. The first one, from the document type through the
  style sheet to the words \<^verbatim>\<open>Last updated: \<close>, is an argument \<open>head\<close> of
  \<open>generate_dashboard\<close>; so is \<^verbatim>\<open>strftime\<close>, which prints a clock reading as a date.\<close>

definition stats_html :: "nat \<Rightarrow> nat \<Rightarrow> nat \<Rightarrow> nat \<Rightarrow> string" where
  \<open>stats_html n_active n_completed n_stuck n_total =
     '' (refreshes every 30s)\<newline>    </div>\<newline>    \<newline>''
   @ ''    <main class="container">\<newline>        <div class="stats-grid">\<newline>''
   @ ''            <div class="stat-card active">\<newline>                <h3>''
   @ str_nat n_active @ ''</h3>\<newline>                <p>'' @ icon_active
   @ '' Active Agents</p>\<newline>            </div>\<newline>''
   @ ''            <div class="stat-card completed">\<newline>                <h3>''
   @ str_nat n_completed @ ''</h3>\<newline>                <p>'' @ icon_completed
   @ '' Completed</p>\<newline>            </div>\<newline>''
   @ ''            <div class="stat-card stuck">\<newline>                <h3>''
   @ str_nat n_stuck @ ''</h3>\<newline>                <p>'' @ icon_stuck
   @ '' Stuck/Idle</p>\<newline>            </div>\<newline>''
   @ ''            <div class="stat-card">\<newline>                <h3>''
   @ str_nat n_total @ ''</h3>\<newline>                <p>'' @ [CHR 0xF0, CHR 0x9F, CHR 0x93, CHR 0x8A]
   @ '' Total Tracked</p>\<newline>            </div>\<newline>        </div>\<newline>''\<close>

definition section_open :: "string \<Rightarrow> string \<Rightarrow> string" where
  \<open>section_open cls title =
     ''\<newline>        <div class="section '' @ cls @ ''">\<newline>            <h2>'' @ title
   @ ''</h2>\<newline>            <div class="agent-grid">\<newline>''\<close>

definition section_close :: string where
  \<open>section_close = ''\<newline>            </div>\<newline>        </div>\<newline>''\<close>

definition more_html :: "nat \<Rightarrow> string" where
  \<open>more_html n =
     ''<p style="text-align: center; color: #6e7681; padding: 20px;">... and '' @ str_nat n
   @ '' more</p>''\<close>

definition empty_state_html :: string where
  \<open>empty_state_html =
     ''\<newline>        <div class="empty-state">\<newline>            <h2>No agents found</h2>\<newline>''
   @ ''            <p>Run some sub-agents to see them here</p>\<newline>        </div>\<newline>''\<close>

definition footer_html :: string where
  \<open>footer_html =
     ''\<newline>    </main>\<newline>    \<newline>    <footer>\<newline>        <p>Built by Finn ''
   @ [CHR 0xF0, CHR 0x9F, CHR 0xA5, CHR 0xB7]
   @ '' | Auto-refreshes every 30 seconds</p>\<newline>    </footer>\<newline></body>\<newline></html>\<newline>''\<close>

text \<open>The three sections. Each is printed only for a bucket that is not empty; the
  completed one prints the cards of \<^verbatim>\<open>completed[:10]\<close> and, for a longer bucket, one
  paragraph with the number of the others.\<close>

definition active_section :: "clock \<Rightarrow> nat \<Rightarrow> session list \<Rightarrow> py_error + string" where
  "active_section clk t bucket =
     (if bucket = [] then Inr []
      else case render_cards clk t bucket of
             Inl e \<Rightarrow> Inl e
           | Inr cards \<Rightarrow>
               Inr (section_open ''active'' (icon_active @ '' Active Agents'') @ cards
                    @ section_close))"

definition completed_section :: "clock \<Rightarrow> nat \<Rightarrow> session list \<Rightarrow> py_error + string" where
  "completed_section clk t bucket =
     (if bucket = [] then Inr []
      else case render_cards clk t (take 10 bucket) of
             Inl e \<Rightarrow> Inl e
           | Inr cards \<Rightarrow>
               Inr (section_open ''completed'' (icon_completed @ '' Completed Agents'') @ cards
                    @ (if length bucket > 10 then more_html (length bucket - 10) else [])
                    @ section_close))"

definition stuck_section :: "clock \<Rightarrow> nat \<Rightarrow> session list \<Rightarrow> py_error + string" where
  "stuck_section clk t bucket =
     (if bucket = [] then Inr []
      else case render_cards clk t bucket of
             Inl e \<Rightarrow> Inl e
           | Inr cards \<Rightarrow>
               Inr (section_open ''stuck'' (icon_stuck @ '' Stuck/Need Attention'') @ cards
                    @ section_close))"

text \<open>\<^verbatim>\<open>generate_dashboard\<close>: the loop reads the clock once a record, the page head once,
  and every card once.\<close>

definition generate_dashboard ::
    "string \<Rightarrow> (int \<Rightarrow> string) \<Rightarrow> clock \<Rightarrow> session list \<Rightarrow> py_error + string" where
  "generate_dashboard head strftime clk sessions =
     (case categorize clk 0 sessions no_buckets of
        Inl e \<Rightarrow> Inl e
      | Inr b \<Rightarrow>
          (let n = length sessions;
               html = head @ strftime (clk n)
                    @ stats_html (length (active_bucket b)) (length (completed_bucket b))
                        (length (stuck_bucket b)) (length (all_sessions b));
               t1 = Suc n;
               t2 = t1 + length (active_bucket b);
               t3 = t2 + length (take 10 (completed_bucket b))
           in case active_section clk t1 (active_bucket b) of
                Inl e \<Rightarrow> Inl e
              | Inr active_html \<Rightarrow>
                  (case completed_section clk t2 (completed_bucket b) of
                     Inl e \<Rightarrow> Inl e
                   | Inr completed_html \<Rightarrow>
                       (case stuck_section clk t3 (stuck_bucket b) of
                          Inl e \<Rightarrow> Inl e
                        | Inr stuck_html \<Rightarrow>
                            Inr (html @ active_html @ completed_html @ stuck_html
                                 @ (if all_sessions b = [] then empty_state_html else [])
                                 @ footer_html)))))"

section \<open>The session source\<close>

text \<open>
  \<^verbatim>\<open>run_command\<close> returns the standard output of the command, stripped, or the text
  \<^verbatim>\<open>Error: ...\<close> when \<^verbatim>\<open>subprocess.run\<close> raises. The outcome of \<^verbatim>\<open>subprocess.run\<close> is the
  argument \<open>outcome\<close>: \<open>Inr\<close> the standard output or \<open>Inl\<close> the message of the exception;
  \<^verbatim>\<open>str.strip\<close> is the argument \<open>strip\<close>.
\<close>

definition run_command :: "(string \<Rightarrow> string) \<Rightarrow> string + string \<Rightarrow> string" where
  "run_command strip outcome = (case outcome of Inr stdout \<Rightarrow> strip stdout | Inl e \<Rightarrow> ''Error: '' @ e)"

text \<open>
  \<^verbatim>\<open>json.loads\<close> is the argument \<open>json_loads\<close>: it raises on a text that is not JSON
  (\<open>None\<close>) or returns the decoded document. A document is an object, whose entries hold
  lists of session records, or some other JSON value, on which \<^verbatim>\<open>data.get\<close> raises
  \<^verbatim>\<open>AttributeError\<close>. The bare \<^verbatim>\<open>except\<close> turns both exceptions into the empty list.
\<close>

datatype document = Object "string \<rightharpoonup> session list" | NotAnObject

definition get_sessions :: "(string \<Rightarrow> document option) \<Rightarrow> string \<Rightarrow> session list" where
  "get_sessions json_loads output =
     (case json_loads output of
        None \<Rightarrow> []
      | Some NotAnObject \<Rightarrow> []
      | Some (Object data) \<Rightarrow> (case data ''sessions'' of None \<Rightarrow> [] | Some v \<Rightarrow> v))"

text \<open>\<^verbatim>\<open>main\<close> up to the page it writes to the output file.\<close>

definition main ::
    "(string \<Rightarrow> string) \<Rightarrow> (string \<Rightarrow> document option) \<Rightarrow> string \<Rightarrow> (int \<Rightarrow> string) \<Rightarrow> clock
     \<Rightarrow> string + string \<Rightarrow> py_error + string" where
  "main strip json_loads head strftime clk outcome =
     generate_dashboard head strftime clk (get_sessions json_loads (run_command strip outcome))"

section \<open>The vocabulary of the properties\<close>

text \<open>What the classifier returns on a record of the data model: the status, its icon and
  its colour.\<close>

definition classify :: "int \<Rightarrow> session \<Rightarrow> string \<times> string \<times> string" where
  "classify now d =
     (let tokens = int_field d ''totalTokens''; idle = idleMinutes now d
      in if tokens = 0 \<and> idle > 5 then (''stuck'', icon_stuck, ''#f85149'')
         else if idle < 2 then (''active'', icon_active, ''#3fb950'')
         else if tokens > 0 then (''completed'', icon_completed, ''#58a6ff'')
         else (''idle'', icon_idle, ''#8b949e''))"





text \<open>A clock whose every reading is the same instant, and three records for the examples.\<close>

definition steady :: "int \<Rightarrow> clock" where
  "steady now = (\<lambda>t. now)"

definition sample_record :: session where
  "sample_record = [''label'' \<mapsto> PStr ''worker'', ''totalTokens'' \<mapsto> PInt 2500,
     ''updatedAt'' \<mapsto> PInt 400000]"



section \<open>Binary64 arithmetic\<close>

































section \<open>Properties of the classifier\<close>

lemma dict_get_int_field:
  "absent_or_int d k \<Longrightarrow> dict_get d k (PInt 0) = PInt (int_field d k)"
  by (auto simp: absent_or_int_def dict_get_def int_field_def split: option.splits pyval.splits)

lemma get_status_record:
  assumes "session_record d"
  shows "get_status now d =
     (let tokens = int_field d ''totalTokens''; idle = idleMinutes now d
      in if tokens = 0 \<and> idle > 5 then Inr (''stuck'', icon_stuck, ''#f85149'')
         else if idle < 2 then Inr (''active'', icon_active, ''#3fb950'')
         else if tokens > 0 then Inr (''completed'', icon_completed, ''#58a6ff'')
         else Inr (''idle'', icon_idle, ''#8b949e''))"
proof -
  have t: "dict_get d ''totalTokens'' (PInt 0) = PInt (int_field d ''totalTokens'')"
    and u: "dict_get d ''updatedAt'' (PInt 0) = PInt (int_field d ''updatedAt'')"
    using assms by (simp_all add: session_record_def dict_get_int_field)
  show ?thesis
    unfolding get_status_def t u by (simp add: idleMinutes_def Let_def)
qed




lemma get_status_cong:
  "d1 ''totalTokens'' = d2 ''totalTokens'' \<Longrightarrow> d1 ''updatedAt'' = d2 ''updatedAt''
   \<Longrightarrow> get_status now d1 = get_status now d2"
  by (simp add: get_status_def dict_get_def)

text \<open>
  C10. The status depends on the record only through its \<open>totalTokens\<close> and \<open>updatedAt\<close>
  entries: two records that agree on both, whatever their labels, kinds, models and other
  keys, get the same result from the classifier at the same instant.
\<close>

theorem status_depends_on_tokens_and_update_only:
  assumes "d1 ''totalTokens'' = d2 ''totalTokens''"
    and "d1 ''updatedAt'' = d2 ''updatedAt''"
  shows "get_status now d1 = get_status now d2"
  using assms by (rule get_status_cong)

theorem status_depends_on_tokens_and_update_only_witness:
  "[''label'' \<mapsto> PStr ''a'', ''totalTokens'' \<mapsto> PInt 7] ''totalTokens''
     = [''totalTokens'' \<mapsto> PInt 7, ''kind'' \<mapsto> PStr ''b'', ''model'' \<mapsto> PNone] ''totalTokens''
   \<and> [''label'' \<mapsto> PStr ''a'', ''totalTokens'' \<mapsto> PInt 7] ''updatedAt''
     = [''totalTokens'' \<mapsto> PInt 7, ''kind'' \<mapsto> PStr ''b'', ''model'' \<mapsto> PNone] ''updatedAt''
   \<and> get_status 1000000 [''label'' \<mapsto> PStr ''a'', ''totalTokens'' \<mapsto> PInt 7]
     = get_status 1000000 [''totalTokens'' \<mapsto> PInt 7, ''kind'' \<mapsto> PStr ''b'', ''model'' \<mapsto> PNone]"
proof -
  have t: "[''label'' \<mapsto> PStr ''a'', ''totalTokens'' \<mapsto> PInt 7] ''totalTokens''
     = [''totalTokens'' \<mapsto> PInt 7, ''kind'' \<mapsto> PStr ''b'', ''model'' \<mapsto> PNone] ''totalTokens''"
    by simp
  have u: "[''label'' \<mapsto> PStr ''a'', ''totalTokens'' \<mapsto> PInt 7] ''updatedAt''
     = [''totalTokens'' \<mapsto> PInt 7, ''kind'' \<mapsto> PStr ''b'', ''model'' \<mapsto> PNone] ''updatedAt''"
    by simp
  from status_depends_on_tokens_and_update_only [OF t u, of 1000000] t u show ?thesis
    by blast
qed

section \<open>Properties of the loop\<close>

lemma get_status_classify: "session_record d \<Longrightarrow> get_status now d = Inr (classify now d)"
  by (simp add: get_status_record classify_def Let_def)






lemma annotate_other_keys:
  "k \<noteq> ''_status'' \<Longrightarrow> k \<noteq> ''_icon'' \<Longrightarrow> k \<noteq> ''_color'' \<Longrightarrow> annotate s r k = s k"
  by (cases r) (simp add: annotate_def)









lemma categorize_all_sessions:
  assumes "categorize clk t ss b0 = Inr b"
  shows "\<exists>A. all_sessions b = all_sessions b0 @ A \<and> length A = length ss
           \<and> (\<forall>i < length ss. \<exists>r. get_status (clk (t + i)) (ss ! i) = Inr r
                  \<and> A ! i = annotate (ss ! i) r)"
  using assms
proof (induction ss arbitrary: t b0)
  case Nil
  then show ?case by simp
next
  case (Cons s ss)
  from Cons.prems obtain r where r: "get_status (clk t) s = Inr r"
    and rest: "categorize clk (Suc t) ss
        (place (fst r) (annotate s r) (b0\<lparr>all_sessions := all_sessions b0 @ [annotate s r]\<rparr>)) = Inr b"
    by (auto split: sum.splits)
  have pl: "all_sessions (place st x c) = all_sessions c" for st x c
    by (simp add: place_def)
  from Cons.IH [OF rest] obtain A where A: "all_sessions b = (all_sessions b0 @ [annotate s r]) @ A"
    "length A = length ss"
    "\<forall>i < length ss. \<exists>r. get_status (clk (Suc t + i)) (ss ! i) = Inr r \<and> A ! i = annotate (ss ! i) r"
    by (auto simp: pl)
  have "\<forall>i < length (s # ss). \<exists>r'. get_status (clk (t + i)) ((s # ss) ! i) = Inr r'
          \<and> (annotate s r # A) ! i = annotate ((s # ss) ! i) r'"
  proof (intro allI impI)
    fix i assume i: "i < length (s # ss)"
    show "\<exists>r'. get_status (clk (t + i)) ((s # ss) ! i) = Inr r'
          \<and> (annotate s r # A) ! i = annotate ((s # ss) ! i) r'"
    proof (cases i)
      case 0
      then show ?thesis using r by simp
    next
      case (Suc j)
      with i A(3) show ?thesis by simp
    qed
  qed
  with A(1,2) show ?case
    by (intro exI [of _ "annotate s r # A"]) simp
qed

text \<open>
  C9. Classification only adds to a record. When the loop has run, the \<open>i\<close>-th record of
  the list is the \<open>i\<close>-th input record with the annotation of one call of the classifier:
  \<open>label\<close>, \<open>kind\<close>, \<open>model\<close>, \<open>totalTokens\<close> and \<open>updatedAt\<close>, and every key other than the
  three annotation keys, have the values they had before. The records of a decoded JSON
  list are distinct objects, so one pass of the loop updates each of them once.
\<close>

theorem classification_is_additive:
  assumes "categorize clk 0 sessions no_buckets = Inr b"
  shows "length (all_sessions b) = length sessions
     \<and> (\<forall>i < length sessions.
          (\<exists>r. get_status (clk i) (sessions ! i) = Inr r
               \<and> all_sessions b ! i = annotate (sessions ! i) r)
          \<and> (\<forall>k \<in> {''label'', ''kind'', ''model'', ''totalTokens'', ''updatedAt''}.
               (all_sessions b ! i) k = (sessions ! i) k)
          \<and> (\<forall>k. k \<notin> {''_status'', ''_icon'', ''_color''}
               \<longrightarrow> (all_sessions b ! i) k = (sessions ! i) k))"
proof -
  from categorize_all_sessions [OF assms] obtain A where A: "all_sessions b = A"
    "length A = length sessions"
    "\<forall>i < length sessions. \<exists>r. get_status (clk i) (sessions ! i) = Inr r
        \<and> A ! i = annotate (sessions ! i) r"
    by (auto simp: no_buckets_def)
  show ?thesis
  proof (intro conjI allI impI)
    show "length (all_sessions b) = length sessions" using A by simp
  next
    fix i assume i: "i < length sessions"
    with A(3) obtain r where r: "get_status (clk i) (sessions ! i) = Inr r"
      "A ! i = annotate (sessions ! i) r" by blast
    then show "\<exists>r. get_status (clk i) (sessions ! i) = Inr r
               \<and> all_sessions b ! i = annotate (sessions ! i) r"
      using A(1) by simp
    show "\<forall>k \<in> {''label'', ''kind'', ''model'', ''totalTokens'', ''updatedAt''}.
               (all_sessions b ! i) k = (sessions ! i) k"
      using r A(1) by (simp add: annotate_other_keys)
    fix k assume "k \<notin> {''_status'', ''_icon'', ''_color''}"
    then show "(all_sessions b ! i) k = (sessions ! i) k"
      using r A(1) by (simp add: annotate_other_keys)
  qed
qed

lemma sample_record_ok: "session_record sample_record"
  by (simp add: session_record_def absent_or_int_def sample_record_def)

lemma classify_sample: "classify 1000000 sample_record = (''completed'', icon_completed, ''#58a6ff'')"
  by (simp add: classify_def sample_record_def int_field_def idleMinutes_def)

lemma categorize_sample:
  "categorize (steady 1000000) 0 [sample_record] no_buckets =
     Inr \<lparr>all_sessions = [annotate sample_record (''completed'', icon_completed, ''#58a6ff'')],
          active_bucket = [],
          completed_bucket = [annotate sample_record (''completed'', icon_completed, ''#58a6ff'')],
          stuck_bucket = []\<rparr>"
  by (simp add: get_status_classify sample_record_ok steady_def classify_sample place_def
      no_buckets_def)

theorem classification_is_additive_witness:
  "categorize (steady 1000000) 0 [sample_record] no_buckets =
     Inr \<lparr>all_sessions = [annotate sample_record (''completed'', icon_completed, ''#58a6ff'')],
          active_bucket = [],
          completed_bucket = [annotate sample_record (''completed'', icon_completed, ''#58a6ff'')],
          stuck_bucket = []\<rparr>
   \<and> annotate sample_record (''completed'', icon_completed, ''#58a6ff'') ''label''
       = sample_record ''label''
   \<and> annotate sample_record (''completed'', icon_completed, ''#58a6ff'') ''totalTokens''
       = Some (PInt 2500)
   \<and> annotate sample_record (''completed'', icon_completed, ''#58a6ff'') ''_status''
       = Some (PStr ''completed'')"
proof -
  note w = classification_is_additive [OF categorize_sample]
  from w have "\<forall>k \<in> {''label'', ''kind'', ''model'', ''totalTokens'', ''updatedAt''}.
      ([annotate sample_record (''completed'', icon_completed, ''#58a6ff'')] ! 0) k
        = ([sample_record] ! 0) k"
    by simp
  then have "annotate sample_record (''completed'', icon_completed, ''#58a6ff'') ''label''
       = sample_record ''label''"
    and "annotate sample_record (''completed'', icon_completed, ''#58a6ff'') ''totalTokens''
       = sample_record ''totalTokens''"
    by simp_all
  then show ?thesis
    using categorize_sample by (simp add: sample_record_def annotate_def)
qed

















section \<open>Properties of the formatters\<close>







lemma hours_positive: "(0 < (m::int) div 60) = (60 \<le> m)"
  by presburger

text \<open>
  C5. \<open>format_duration\<close> prints \<open>N/A\<close> for \<^verbatim>\<open>None\<close> and for 0. For any other number of
  milliseconds it takes the whole minutes \<open>ms div 60000\<close> and prints hours and the minutes
  modulo 60 when there are at least 60 minutes, the minutes alone otherwise:
  5400000 gives \<open>1h 30m\<close> and 1800000 gives \<open>30m\<close>.
\<close>

theorem format_duration_display:
  "format_duration PNone = Inr ''N/A''
   \<and> format_duration (PInt 0) = Inr ''N/A''
   \<and> (ms \<noteq> 0 \<longrightarrow>
        format_duration (PInt ms) =
          (if 60 \<le> ms div 60000 then
             Inr (str_int (ms div 60000 div 60) @ ''h '' @ str_int (ms div 60000 mod 60) @ ''m'')
           else Inr (str_int (ms div 60000) @ ''m'')))
   \<and> format_duration (PInt 5400000) = Inr ''1h 30m''
   \<and> format_duration (PInt 1800000) = Inr ''30m''"
proof (intro conjI impI)
  show "format_duration PNone = Inr ''N/A''"
    by (simp add: format_duration_def)
  show "format_duration (PInt 0) = Inr ''N/A''"
    by (simp add: format_duration_def)
  show "format_duration (PInt ms) =
          (if 60 \<le> ms div 60000 then
             Inr (str_int (ms div 60000 div 60) @ ''h '' @ str_int (ms div 60000 mod 60) @ ''m'')
           else Inr (str_int (ms div 60000) @ ''m''))" if "ms \<noteq> 0"
    using that by (simp add: format_duration_def Let_def hours_positive)
  show "format_duration (PInt 5400000) = Inr ''1h 30m''"
    by (simp add: format_duration_def str_int_def str_nat.simps digit_char_def)
  show "format_duration (PInt 1800000) = Inr ''30m''"
    by (simp add: format_duration_def str_int_def str_nat.simps digit_char_def)
qed

theorem format_duration_display_witness:
  "(7500000 :: int) \<noteq> 0 \<and> format_duration (PInt 7500000) = Inr ''2h 5m''"
proof -
  have "(7500000 :: int) \<noteq> 0" by simp
  with format_duration_display [of 7500000]
  have "format_duration (PInt 7500000) =
          (if (60::int) \<le> 7500000 div 60000 then
             Inr (str_int (7500000 div 60000 div 60) @ ''h '' @ str_int (7500000 div 60000 mod 60) @ ''m'')
           else Inr (str_int (7500000 div 60000) @ ''m''))"
    by blast
  then show ?thesis
    by (simp add: str_int_def str_nat.simps digit_char_def)
qed






section \<open>Properties of the sections of the page\<close>








section \<open>Errors and the session source\<close>





end
